theory Spec2Isabelle
  imports Complex_Main
begin

section \<open>The NK landscape of \<^verbatim>\<open>nk-landscape.py\<close>\<close>

text \<open>
  The class \<^verbatim>\<open>NKLandscape\<close> holds the string length \<open>N\<close>, the number of
  dependencies \<open>K\<close>, an \<open>N \<times> N\<close> dependency matrix and a table of fitness
  contributions. This theory embeds its methods as HOL functions:
  \<^item> a two-dimensional numpy array is the list of its rows (an array with no row is
    \<open>[]\<close>, whatever its number of columns), a one-dimensional array is a list;
  \<^item> an entry of a numeric array is the real number it denotes, whether the array's
    dtype is an integer or a floating-point one (no NaN, no infinity);
    \<^verbatim>\<open>astype(int)\<close> truncates it toward zero;
  \<^item> the bits of a solution and the index computed from them are integers without
    bound; \<open>binary_to_decimal_no_overflow\<close> below shows that the 64-bit integers
    of numpy compute the same values as long as a row has at most 63 ones;
  \<^item> every \<^verbatim>\<open>raise\<close>, every failing name lookup and every failing index is a
    value \<open>Inl e\<close> of the result;
  \<^item> a method that assigns to a field returns the object after the call;
  \<^item> the random source of numpy is an argument: the sequence of its draws.
\<close>

subsection \<open>Errors\<close>

text \<open>
  The texts of the \<^verbatim>\<open>ValueError\<close>s of the class, and the one of numpy that
  the class can run into (``negative dimensions are not allowed''). A formatted
  number is the argument of the constructor.
\<close>

datatype message =
    N_must_be_provided
  | K_must_be_provided
  | K_must_be_less_than_N int
  | Matrix_must_be_of_shape int int
  | Matrix_must_be_binary
  | Diagonal_must_be_ones
  | K0_matrix_must_be_identity
  | Rows_must_sum_to int
  | Number_of_solutions_must_be_specified
  | Negative_dimensions

datatype error =
    ValueError message
  | NameError string
  | IndexError
  | TypeError

subsection \<open>The numpy operations the class uses\<close>

text \<open>\<^verbatim>\<open>a.shape == (r, c)\<close> for a two-dimensional array.\<close>

definition has_shape :: "'a list list \<Rightarrow> int \<times> int \<Rightarrow> bool" where
  "has_shape a s \<longleftrightarrow>
     int (length a) = fst s \<and> list_all (\<lambda>row. int (length row) = snd s) a"

text \<open>The conversion of a floating-point value to an integer truncates toward zero.\<close>

definition trunc :: "real \<Rightarrow> int" where
  "trunc x = (if 0 \<le> x then \<lfloor>x\<rfloor> else \<lceil>x\<rceil>)"

definition astype_int :: "real list list \<Rightarrow> real list list" where
  "astype_int a = map (map (\<lambda>x. of_int (trunc x))) a"

text \<open>
  \<^verbatim>\<open>astype(bool)\<close> maps zero to \<^verbatim>\<open>False\<close> and every other value to
  \<^verbatim>\<open>True\<close>; a comparison with a numeric array reads them as 0 and 1 again.
\<close>

definition astype_bool :: "real list list \<Rightarrow> real list list" where
  "astype_bool a = map (map (\<lambda>x. if x \<noteq> 0 then 1 else 0)) a"

text \<open>\<^verbatim>\<open>np.array_equal\<close>: the same shape and the same entries.\<close>

definition array_equal :: "'a list \<Rightarrow> 'a list \<Rightarrow> bool" where
  "array_equal a b \<longleftrightarrow> a = b"

text \<open>\<^verbatim>\<open>np.trace\<close> of a square matrix, \<^verbatim>\<open>a.sum()\<close> and \<^verbatim>\<open>a.sum(axis=1)\<close>.\<close>

definition trace :: "real list list \<Rightarrow> real" where
  "trace a = sum_list (map (\<lambda>i. a ! i ! i) [0..<length a])"

definition sum_axis1 :: "real list list \<Rightarrow> real list" where
  "sum_axis1 a = map sum_list a"

definition sum_all :: "real list list \<Rightarrow> real" where
  "sum_all a = sum_list (map sum_list a)"

text \<open>
  \<^verbatim>\<open>np.eye(n, k=k)\<close>: ones on the \<open>k\<close>-th diagonal, the entries \<open>(i, i + k)\<close>;
  \<^verbatim>\<open>np.identity(n)\<close> is the main diagonal. The sum of two arrays of one shape
  is taken entry by entry.
\<close>

definition eye :: "nat \<Rightarrow> int \<Rightarrow> real list list" where
  "eye n k = map (\<lambda>i. map (\<lambda>j. if int j = int i + k then 1 else 0) [0..<n]) [0..<n]"

definition identity :: "nat \<Rightarrow> real list list" where
  "identity n = eye n 0"

definition add_arrays :: "real list list \<Rightarrow> real list list \<Rightarrow> real list list" where
  "add_arrays a b = map2 (map2 (+)) a b"

text \<open>
  Indexing with an integer: a negative index counts from the end, an index out of
  range raises \<^verbatim>\<open>IndexError\<close>. Indexing with an array of (non-negative) indices
  gathers the entries at them.
\<close>

definition getitem :: "'a list \<Rightarrow> int \<Rightarrow> error + 'a" where
  "getitem xs i =
     (if 0 \<le> i \<and> i < int (length xs) then Inr (xs ! nat i)
      else if i < 0 \<and> - int (length xs) \<le> i then Inr (xs ! nat (int (length xs) + i))
      else Inl IndexError)"

definition gather :: "'a list \<Rightarrow> nat list \<Rightarrow> error + 'a list" where
  "gather xs idx =
     (if list_all (\<lambda>j. j < length xs) idx then Inr (map (\<lambda>j. xs ! j) idx)
      else Inl IndexError)"

text \<open>
  The random source. \<^verbatim>\<open>np.random.randint(high, size=(r, c))\<close> and
  \<^verbatim>\<open>np.random.uniform(-1, 1, (r, c))\<close> fill an array of the shape asked for with
  the draws of the source, in order; a negative dimension raises
  \<^verbatim>\<open>ValueError\<close>. The source of \<open>randint\<close> gives raw naturals, reduced modulo
  \<open>high\<close>; the source of \<open>uniform\<close> gives the values themselves.
\<close>

definition fill :: "(nat \<Rightarrow> 'a) \<Rightarrow> int \<Rightarrow> int \<Rightarrow> error + 'a list list" where
  "fill draw r c =
     (if r < 0 \<or> c < 0 then Inl (ValueError Negative_dimensions)
      else Inr (map (\<lambda>i. map (\<lambda>j. draw (i * nat c + j)) [0..<nat c]) [0..<nat r]))"

definition randint :: "(nat \<Rightarrow> nat) \<Rightarrow> nat \<Rightarrow> int \<Rightarrow> int \<Rightarrow> error + int list list" where
  "randint rnd high r c = fill (\<lambda>n. int (rnd n mod high)) r c"

definition uniform :: "(nat \<Rightarrow> 'a) \<Rightarrow> int \<Rightarrow> int \<Rightarrow> error + 'a list list" where
  "uniform rnd r c = fill rnd r c"

subsection \<open>The landscape\<close>

text \<open>
  The fitness values are floating-point numbers that the class only adds, starting
  from zero: their type is left open, with a zero and an addition of which nothing
  is assumed.
\<close>

record 'a landscape =
  N :: int
  K :: int
  dependency_matrix :: "real list list"
  fitness_mapping :: "'a list list"

text \<open>
  \<^verbatim>\<open>_construct_sequential_dependency_matrix\<close> reads \<^verbatim>\<open>self.N\<close> and
  \<^verbatim>\<open>self.K\<close>, its arguments here. \<^verbatim>\<open>np.identity\<close> raises on a negative size.
\<close>

definition construct_sequential_dependency_matrix :: "int \<Rightarrow> int \<Rightarrow> error + real list list" where
  "construct_sequential_dependency_matrix n k =
     (if n < 0 then Inl (ValueError Negative_dimensions)
      else
        let dm = identity (nat n);
            dm = (if k > 0
                  then foldl (\<lambda>dm offset.
                          add_arrays dm
                            (add_arrays (eye (nat n) (int offset + 1))
                                        (eye (nat n) (- (n - (int offset + 1))))))
                        dm [0..<nat k]
                  else dm)
        in Inr (astype_int dm))"

text \<open>\<^verbatim>\<open>_binary_to_decimal\<close>: the loop over \<^verbatim>\<open>range(len(binary))\<close>.\<close>

definition binary_to_decimal :: "int list \<Rightarrow> int" where
  "binary_to_decimal binary =
     foldl (\<lambda>decimal i. decimal + binary ! (length binary - i - 1) * 2 ^ i)
       0 [0..<length binary]"

text \<open>
  \<^verbatim>\<open>_check_dependency_matrix\<close> reads \<^verbatim>\<open>self.N\<close>, \<^verbatim>\<open>self.K\<close> and
  \<^verbatim>\<open>self.dependency_matrix\<close>, the last three arguments here. Its fourth test
  reads the name \<^verbatim>\<open>K\<close>, which is neither a local variable nor a field: Python
  looks it up in the global namespace of the module. The first argument \<open>gK\<close> is
  what that namespace binds \<^verbatim>\<open>K\<close> to; the module itself binds nothing, which is
  \<open>None\<close>, and the lookup raises \<^verbatim>\<open>NameError\<close>.
\<close>

definition check_dependency_matrix ::
  "int option \<Rightarrow> int \<Rightarrow> int \<Rightarrow> real list list \<Rightarrow> error + unit" where
  "check_dependency_matrix gK n k dm =
     (if \<not> has_shape dm (n, n) then Inl (ValueError (Matrix_must_be_of_shape n n))
      else if \<not> array_equal dm (astype_bool dm) then Inl (ValueError Matrix_must_be_binary)
      else if trace dm \<noteq> of_int n then Inl (ValueError Diagonal_must_be_ones)
      else case gK of
        None \<Rightarrow> Inl (NameError ''K'')
      | Some g \<Rightarrow>
          if g = 0 \<and> sum_all dm \<noteq> of_int n then Inl (ValueError K0_matrix_must_be_identity)
          else if \<not> array_equal (sum_axis1 dm) (replicate (nat n) (of_int (k + 1)))
          then Inl (ValueError (Rows_must_sum_to k))
          else Inr ())"

text \<open>
  \<^verbatim>\<open>__init__\<close>. \<open>gK\<close> is the global binding of \<^verbatim>\<open>K\<close>, \<open>rnd\<close> the random
  source; an argument left out is \<open>None\<close>. \<^verbatim>\<open>2**(K+1)\<close> with a negative
  exponent is a float, which numpy refuses as a dimension (\<^verbatim>\<open>TypeError\<close>).
\<close>

definition init ::
  "int option \<Rightarrow> (nat \<Rightarrow> 'a) \<Rightarrow> int option \<Rightarrow> int option \<Rightarrow> real list list option
     \<Rightarrow> 'a list list option \<Rightarrow> error + 'a landscape" where
  "init gK rnd N_arg K_arg dependency_matrix_arg fitness_mapping_arg =
     (case N_arg of
        None \<Rightarrow> Inl (ValueError N_must_be_provided)
      | Some n \<Rightarrow>
     (case K_arg of
        None \<Rightarrow> Inl (ValueError K_must_be_provided)
      | Some k \<Rightarrow>
     if k \<ge> n then Inl (ValueError (K_must_be_less_than_N n))
     else
     (case (case dependency_matrix_arg of
              None \<Rightarrow> construct_sequential_dependency_matrix n k
            | Some m \<Rightarrow>
                (case check_dependency_matrix gK n k (astype_int m) of
                   Inl e \<Rightarrow> Inl e
                 | Inr _ \<Rightarrow> Inr (astype_int m))) of
        Inl e \<Rightarrow> Inl e
      | Inr dm \<Rightarrow>
     (case (case fitness_mapping_arg of
              None \<Rightarrow> if k + 1 < 0 then Inl TypeError
                      else uniform rnd n (2 ^ nat (k + 1))
            | Some fm \<Rightarrow> Inr fm) of
        Inl e \<Rightarrow> Inl e
      | Inr fm \<Rightarrow>
          Inr \<lparr>N = n, K = k, dependency_matrix = dm, fitness_mapping = fm\<rparr>))))"

text \<open>\<^verbatim>\<open>generate_solutions\<close>.\<close>

definition generate_solutions ::
  "(nat \<Rightarrow> nat) \<Rightarrow> 'a landscape \<Rightarrow> int option \<Rightarrow> error + int list list" where
  "generate_solutions rnd self num =
     (case num of
        None \<Rightarrow> Inl (ValueError Number_of_solutions_must_be_specified)
      | Some m \<Rightarrow> randint rnd 2 m (N self))"

text \<open>
  \<^verbatim>\<open>calculate_fitness\<close>, one step of its loop at a time. The indices of the ones
  of a row (\<^verbatim>\<open>np.argwhere(row == 1).T[0]\<close>):
\<close>

definition dependency_indicies :: "real list \<Rightarrow> nat list" where
  "dependency_indicies row = filter (\<lambda>j. row ! j = 1) [0..<length row]"

text \<open>
  \<^verbatim>\<open>np.roll(dependency_indicies, -np.argwhere(dependency_indicies == i)[0])\<close>:
  the first position of \<open>i\<close> among the indices (\<^verbatim>\<open>IndexError\<close> when there is
  none), and the indices rolled to the left by it.
\<close>

definition rolled_dependency_indicies :: "nat list \<Rightarrow> nat \<Rightarrow> error + nat list" where
  "rolled_dependency_indicies di i =
     (case filter (\<lambda>p. di ! p = i) [0..<length di] of
        [] \<Rightarrow> Inl IndexError
      | p # _ \<Rightarrow> Inr (rotate p di))"

text \<open>The index \<^verbatim>\<open>decimal\<close> that iteration \<open>i\<close> of the loop computes.\<close>

definition decimal_at :: "'a landscape \<Rightarrow> int list \<Rightarrow> nat \<Rightarrow> error + int" where
  "decimal_at self solution i =
     (if length (dependency_matrix self) \<le> i then Inl IndexError
      else
        case rolled_dependency_indicies
               (dependency_indicies (dependency_matrix self ! i)) i of
          Inl e \<Rightarrow> Inl e
        | Inr rolled \<Rightarrow>
            (case gather solution rolled of
               Inl e \<Rightarrow> Inl e
             | Inr substring \<Rightarrow> Inr (binary_to_decimal substring)))"

text \<open>The lookup \<^verbatim>\<open>self.fitness_mapping[i, decimal]\<close>.\<close>

definition contribution :: "'a landscape \<Rightarrow> nat \<Rightarrow> int \<Rightarrow> error + 'a" where
  "contribution self i decimal =
     (if length (fitness_mapping self) \<le> i then Inl IndexError
      else getitem (fitness_mapping self ! i) decimal)"

text \<open>The loop over \<^verbatim>\<open>range(self.N)\<close>, with the running total \<^verbatim>\<open>fitness\<close>.\<close>

fun fitness_loop :: "'a::{zero,plus} landscape \<Rightarrow> int list \<Rightarrow> nat list \<Rightarrow> 'a \<Rightarrow> error + 'a" where
  "fitness_loop self solution [] fitness = Inr fitness"
| "fitness_loop self solution (i # rest) fitness =
     (case decimal_at self solution i of
        Inl e \<Rightarrow> Inl e
      | Inr decimal \<Rightarrow>
          (case contribution self i decimal of
             Inl e \<Rightarrow> Inl e
           | Inr v \<Rightarrow> fitness_loop self solution rest (fitness + v)))"

definition calculate_fitness :: "'a::{zero,plus} landscape \<Rightarrow> int list \<Rightarrow> error + 'a" where
  "calculate_fitness self solution = fitness_loop self solution [0..<nat (N self)] 0"

text \<open>
  \<^verbatim>\<open>set_dependency_matrix\<close>: the assignment, then the check. The result is the
  outcome of the check and the object as the call leaves it.
\<close>

definition set_dependency_matrix ::
  "int option \<Rightarrow> 'a landscape \<Rightarrow> real list list \<Rightarrow> (error + unit) \<times> 'a landscape" where
  "set_dependency_matrix gK self dm =
     (let self' = self\<lparr>dependency_matrix := dm\<rparr>
      in (check_dependency_matrix gK (N self') (K self') (dependency_matrix self'), self'))"

definition get_dependency_matrix :: "'a landscape \<Rightarrow> real list list" where
  "get_dependency_matrix self = dependency_matrix self"

subsection \<open>Calls as transformers of the world\<close>

text \<open>
  What a method call can change besides returning a value: the fields of the
  object, by an assignment, and the state of numpy's global random generator, by a
  draw. A world holds both; the generator is the sequence of the draws still to
  come. A call takes a world and returns its outcome and the world it leaves.

  \<^verbatim>\<open>generate_solutions\<close> draws one value for every entry of the array it
  returns; the generator then goes on after them. \<^verbatim>\<open>calculate_fitness\<close> is
  written out statement by statement, each iteration of its loop reading the
  fields of the object in the world it is run in.
\<close>

record 'a world =
  obj :: "'a landscape"
  generator :: "nat \<Rightarrow> nat"

definition generate_solutions_call ::
  "'a world \<Rightarrow> int option \<Rightarrow> (error + int list list) \<times> 'a world" where
  "generate_solutions_call w num =
     (case generate_solutions (generator w) (obj w) num of
        Inl e \<Rightarrow> (Inl e, w)
      | Inr sols \<Rightarrow>
          (Inr sols, w\<lparr>generator := (\<lambda>n. generator w (n + length (concat sols)))\<rparr>))"

fun calculate_fitness_steps ::
  "'a::{zero,plus} world \<Rightarrow> int list \<Rightarrow> nat list \<Rightarrow> 'a \<Rightarrow> (error + 'a) \<times> 'a world" where
  "calculate_fitness_steps w solution [] fitness = (Inr fitness, w)"
| "calculate_fitness_steps w solution (i # rest) fitness =
     (case decimal_at (obj w) solution i of
        Inl e \<Rightarrow> (Inl e, w)
      | Inr decimal \<Rightarrow>
          (case contribution (obj w) i decimal of
             Inl e \<Rightarrow> (Inl e, w)
           | Inr v \<Rightarrow> calculate_fitness_steps w solution rest (fitness + v)))"

definition calculate_fitness_call ::
  "'a::{zero,plus} world \<Rightarrow> int list \<Rightarrow> (error + 'a) \<times> 'a world" where
  "calculate_fitness_call w solution =
     calculate_fitness_steps w solution [0..<nat (N (obj w))] 0"

subsection \<open>What the class expects of its data\<close>

text \<open>
  A landscape is valid when its dependency matrix passes
  \<^verbatim>\<open>_check_dependency_matrix\<close> read with the instance's own \<open>K\<close> for the name
  \<^verbatim>\<open>K\<close>, as the docstring of the class describes the matrix, and its fitness
  mapping has the shape \<^verbatim>\<open>(N, 2**(K+1))\<close> that \<^verbatim>\<open>__init__\<close> gives the
  default one. A solution is a length-\<open>N\<close> array of zeros and ones.
\<close>

definition valid_landscape :: "'a landscape \<Rightarrow> bool" where
  "valid_landscape self \<longleftrightarrow>
     check_dependency_matrix (Some (K self)) (N self) (K self) (dependency_matrix self) = Inr () \<and>
     has_shape (fitness_mapping self) (N self, 2 ^ nat (K self + 1))"

definition binary_solution :: "'a landscape \<Rightarrow> int list \<Rightarrow> bool" where
  "binary_solution self solution \<longleftrightarrow>
     int (length solution) = N self \<and> list_all (\<lambda>bit. bit = 0 \<or> bit = 1) solution"

subsection \<open>The reference computation of the fitness\<close>

text \<open>
  The fitness as the specification words it, computed without the rolling and the
  loop of the class, to compare \<open>calculate_fitness\<close> with. The dependency indices
  of row \<open>i\<close> in ascending order, rotated so that \<open>i\<close> comes first: the ones
  from \<open>i\<close> on, then the ones before \<open>i\<close>. The value of a bit string read with
  the most significant bit first. \<open>spec_d\<close> is the index \<open>d\<^sub>i\<close> of position
  \<open>i\<close>, \<open>spec_fitness\<close> the sum of the entries \<open>fitness_mapping[i, d\<^sub>i]\<close>,
  added from zero in the order of the positions.
\<close>

definition spec_rotated_indices :: "real list \<Rightarrow> nat \<Rightarrow> nat list" where
  "spec_rotated_indices row i =
     filter (\<lambda>j. row ! j = 1) [i..<length row] @ filter (\<lambda>j. row ! j = 1) [0..<i]"

definition spec_msb_first :: "int list \<Rightarrow> int" where
  "spec_msb_first bits = foldl (\<lambda>value bit. 2 * value + bit) 0 bits"

definition spec_d :: "'a landscape \<Rightarrow> int list \<Rightarrow> nat \<Rightarrow> int" where
  "spec_d self solution i =
     spec_msb_first
       (map (\<lambda>j. solution ! j) (spec_rotated_indices (dependency_matrix self ! i) i))"

definition spec_fitness :: "'a::{zero,plus} landscape \<Rightarrow> int list \<Rightarrow> 'a" where
  "spec_fitness self solution =
     foldl (+) 0
       (map (\<lambda>i. fitness_mapping self ! i ! nat (spec_d self solution i)) [0..<nat (N self)])"

subsection \<open>The closed form of the sequential matrix\<close>

text \<open>
  Row \<open>i\<close> of \<open>wrapped n m\<close> has its ones at \<open>i\<close> and at the \<open>m\<close> positions
  after it, wrapping around at \<open>n\<close>. The loop of
  \<^verbatim>\<open>_construct_sequential_dependency_matrix\<close> is shown below to build it.
\<close>

definition wrapped :: "nat \<Rightarrow> nat \<Rightarrow> real list list" where
  "wrapped n m =
     map (\<lambda>i. map (\<lambda>j. if (i \<le> j \<and> j \<le> i + m) \<or> (j < i \<and> j + n \<le> i + m) then 1 else 0)
            [0..<n]) [0..<n]"

section \<open>Properties\<close>

subsection \<open>Validation of a supplied matrix\<close>

lemma has_shape_astype_int: "has_shape (astype_int a) s = has_shape a s"
  by (simp add: has_shape_def astype_int_def list_all_iff)

lemma astype_bool_fixed_iff:
  "array_equal a (astype_bool a) \<longleftrightarrow> list_all (list_all (\<lambda>x. x = 0 \<or> x = 1)) a"
proof -
  have row: "(map (\<lambda>x. if x \<noteq> 0 then 1 else 0) r = r) \<longleftrightarrow> list_all (\<lambda>x. x = 0 \<or> x = 1) r"
    for r :: "real list"
    by (induction r) auto
  have "(map (map (\<lambda>x. if x \<noteq> 0 then 1 else 0)) a = a) \<longleftrightarrow>
        list_all (list_all (\<lambda>x. x = 0 \<or> x = (1::real))) a"
    by (induction a) (auto simp add: row)
  then show ?thesis
    by (auto simp add: array_equal_def astype_bool_def)
qed

lemma binary_astype_int:
  "list_all (list_all (\<lambda>x. x = 0 \<or> x = 1)) (astype_int a) \<longleftrightarrow>
   list_all (list_all (\<lambda>x. trunc x = 0 \<or> trunc x = 1)) a"
  by (simp add: astype_int_def list_all_iff)

text \<open>
  Claim C1 (a defect of the code). With \<open>K = 0\<close>, a supplied matrix whose sum is
  not \<open>N\<close> should be refused with \<^verbatim>\<open>ValueError\<close> by a test that reads the
  instance's own \<open>K\<close>. The test reads the global name \<^verbatim>\<open>K\<close> instead, which
  the module does not bind: for \<open>N = 2\<close>, \<open>K = 0\<close> and the matrix
  \<open>[[1, 1], [0, 1]]\<close> (binary, trace 2, sum 3) the check, and with it the
  constructor, raises \<^verbatim>\<open>NameError\<close>. In that module no matrix at all passes
  the check.
\<close>

theorem check_reads_global_K:
  "check_dependency_matrix None 2 0 [[1, 1], [0, 1]] = Inl (NameError ''K'') \<and>
   init None rnd (Some 2) (Some 0) (Some [[1, 1], [0, 1]]) fm_arg = Inl (NameError ''K'') \<and>
   check_dependency_matrix None n k dm \<noteq> Inr ()"
proof -
  have checked: "check_dependency_matrix None 2 0 [[1, 1], [0, 1]] = Inl (NameError ''K'')"
    by (simp add: check_dependency_matrix_def has_shape_def array_equal_def
        astype_bool_def trace_def upt_conv_Cons)
  have "astype_int [[1, 1], [0, 1]] = [[1, 1], [0, 1]]"
    by (simp add: astype_int_def trunc_def)
  with checked have constructed:
    "init None rnd (Some 2) (Some 0) (Some [[1, 1], [0, 1]]) fm_arg = Inl (NameError ''K'')"
    by (simp add: init_def)
  have "check_dependency_matrix None n k dm \<noteq> Inr ()"
    by (simp add: check_dependency_matrix_def)
  with checked constructed show ?thesis
    by simp
qed

text \<open>
  Claim C4 (a defect of the code). A supplied matrix with an entry that is not 0 or
  1 should be refused with \<^verbatim>\<open>ValueError\<close>, as the docstring of the class asks
  for a matrix of zeros and ones and as the test of the binary entries in
  \<^verbatim>\<open>_check_dependency_matrix\<close> attempts. \<^verbatim>\<open>__init__\<close> converts the
  matrix with \<^verbatim>\<open>astype(int)\<close> before that test: for \<open>N = 1\<close>, \<open>K = 0\<close> and
  the matrix \<open>[[1.5]]\<close> the entry becomes 1 and passes it. The call ends in the
  \<^verbatim>\<open>NameError\<close> of claim C1, and where the global name \<^verbatim>\<open>K\<close> is bound to
  0 it returns a landscape holding \<open>[[1]]\<close>; no \<^verbatim>\<open>ValueError\<close> is raised.
  \<^verbatim>\<open>set_dependency_matrix\<close>, which does not convert, refuses the same matrix
  with the \<^verbatim>\<open>ValueError\<close> of the non-binary entries.
\<close>

theorem init_coerces_non_binary:
  "init None real (Some 1) (Some 0) (Some [[3 / 2]]) (Some [[0, 1]])
     = Inl (NameError ''K'') \<and>
   init (Some 0) real (Some 1) (Some 0) (Some [[3 / 2]]) (Some [[0, 1]])
     = Inr \<lparr>N = 1, K = 0, dependency_matrix = [[1]], fitness_mapping = [[0, 1]]\<rparr> \<and>
   fst (set_dependency_matrix gK
          \<lparr>N = 1, K = 0, dependency_matrix = [[1]], fitness_mapping = fm\<rparr> [[3 / 2]])
     = Inl (ValueError Matrix_must_be_binary)"
  by (simp add: init_def set_dependency_matrix_def check_dependency_matrix_def has_shape_def
      array_equal_def astype_bool_def astype_int_def trunc_def trace_def sum_all_def
      sum_axis1_def)

text \<open>
  What the constructor does refuse: a supplied \<open>N \<times> N\<close> matrix with an entry whose
  integer part is not 0 or 1 (the range error of \<open>K\<close> comes first when
  \<open>K \<ge> N\<close>), and so every matrix of whole numbers with an entry other than 0
  and 1. A matrix whose entries all have the integer part 0 or 1 is never refused
  as non-binary.
\<close>

lemma init_rejects_non_binary:
  assumes "has_shape dm (n, n)"
  shows "(\<not> list_all (list_all (\<lambda>x. trunc x = 0 \<or> trunc x = 1)) dm \<longrightarrow>
            init gK rnd (Some n) (Some k) (Some dm) fm_arg
            = Inl (ValueError (if n \<le> k then K_must_be_less_than_N n else Matrix_must_be_binary))) \<and>
         (list_all (list_all (\<lambda>x. trunc x = 0 \<or> trunc x = 1)) dm \<longrightarrow>
            init gK rnd (Some n) (Some k) (Some dm) fm_arg \<noteq> Inl (ValueError Matrix_must_be_binary))"
  using assms
  by (auto simp add: init_def check_dependency_matrix_def has_shape_astype_int
      astype_bool_fixed_iff binary_astype_int uniform_def fill_def
      split: option.splits sum.splits if_splits)

lemma init_rejects_non_binary_integers:
  assumes "has_shape dm (n, n)"
    and "list_all (list_all (\<lambda>x. x \<in> \<int>)) dm"
    and "\<not> list_all (list_all (\<lambda>x. x = 0 \<or> x = 1)) dm"
  shows "init gK rnd (Some n) (Some k) (Some dm) fm_arg
         = Inl (ValueError (if n \<le> k then K_must_be_less_than_N n else Matrix_must_be_binary))"
proof -
  have "trunc x = 0 \<or> trunc x = 1 \<longleftrightarrow> x = 0 \<or> x = 1" if "x \<in> \<int>" for x
    using that by (auto simp add: trunc_def elim!: Ints_cases)
  with assms(2) have "list_all (list_all (\<lambda>x. trunc x = 0 \<or> trunc x = 1)) dm
      \<longleftrightarrow> list_all (list_all (\<lambda>x. x = 0 \<or> x = 1)) dm"
    unfolding list_all_iff by blast
  with assms(1) assms(3) show ?thesis
    by (simp add: init_def check_dependency_matrix_def has_shape_astype_int
        astype_bool_fixed_iff binary_astype_int)
qed

subsection \<open>The sequential dependency matrix\<close>

lemma map2_map_map:
  "map2 f (map g xs) (map h xs) = map (\<lambda>x. f (g x) (h x)) xs"
  by (induction xs) simp_all

lemma identity_wrapped: "identity n = wrapped n 0"
  by (auto simp add: identity_def eye_def wrapped_def)

text \<open>One iteration of the loop, with the offset \<open>m\<close>: the diagonals \<open>m + 1\<close> and
  \<open>m + 1 - n\<close> add the next position after the ones of every row.\<close>

lemma wrapped_step:
  assumes "Suc m < n" "a = int m + 1" "b = int m + 1 - int n"
  shows "add_arrays (wrapped n m) (add_arrays (eye n a) (eye n b)) = wrapped n (Suc m)"
  using assms
  by (auto simp add: add_arrays_def wrapped_def eye_def map2_map_map)

lemma sequential_fold:
  "0 \<le> n \<Longrightarrow> m < nat n \<Longrightarrow>
   foldl (\<lambda>dm offset. add_arrays dm
            (add_arrays (eye (nat n) (int offset + 1)) (eye (nat n) (- (n - (int offset + 1))))))
     (identity (nat n)) [0..<m] = wrapped (nat n) m"
proof (induction m)
  case 0
  show ?case by (simp add: identity_wrapped)
next
  case (Suc m)
  then show ?case by (simp add: wrapped_step)
qed

lemma astype_int_wrapped: "astype_int (wrapped n m) = wrapped n m"
  by (simp add: astype_int_def wrapped_def trunc_def)

lemma construct_sequential_wrapped:
  assumes "0 \<le> k" "k < n"
  shows "construct_sequential_dependency_matrix n k = Inr (wrapped (nat n) (nat k))"
proof -
  have "0 \<le> n" "nat k < nat n" using assms by simp_all
  from sequential_fold [OF this] assms show ?thesis
    by (simp add: construct_sequential_dependency_matrix_def astype_int_wrapped
        identity_wrapped Let_def)
qed

lemma construct_sequential_no_offsets:
  assumes "k \<le> 0" "0 \<le> n"
  shows "construct_sequential_dependency_matrix n k = Inr (identity (nat n))"
  using assms
  by (simp add: construct_sequential_dependency_matrix_def astype_int_wrapped
      identity_wrapped Let_def)

lemma delta_sum:
  "sum_list (map (\<lambda>j. if j = c then 1 else 0) [0..<n]) = (if c < n then 1 else (0::real))"
  by (induction n) auto

lemma wrapped_row_sum:
  assumes "i < n"
  shows "m < n \<Longrightarrow>
    sum_list (map (\<lambda>j. if (i \<le> j \<and> j \<le> i + m) \<or> (j < i \<and> j + n \<le> i + m) then 1 else 0)
       [0..<n]) = real (Suc m)"
proof (induction m)
  case 0
  have "map (\<lambda>j. if (i \<le> j \<and> j \<le> i + 0) \<or> (j < i \<and> j + n \<le> i + 0) then 1 else (0::real)) [0..<n]
        = map (\<lambda>j. if j = i then 1 else 0) [0..<n]"
    using assms by auto
  then have "sum_list (map (\<lambda>j. if (i \<le> j \<and> j \<le> i + 0) \<or> (j < i \<and> j + n \<le> i + 0) then 1 else (0::real)) [0..<n])
        = sum_list (map (\<lambda>j. if j = i then 1 else 0) [0..<n])"
    by (rule arg_cong)
  also have "\<dots> = real (Suc 0)"
    using assms by (simp add: delta_sum)
  finally show ?case .
next
  case (Suc m)
  let ?f = "\<lambda>m j. if (i \<le> j \<and> j \<le> i + m) \<or> (j < i \<and> j + n \<le> i + m) then 1 else (0::real)"
  let ?c = "if i + Suc m < n then i + Suc m else i + Suc m - n"
  have "map (?f (Suc m)) [0..<n] = map (\<lambda>j. ?f m j + (if j = ?c then 1 else 0)) [0..<n]"
    using Suc.prems assms by auto
  then have "sum_list (map (?f (Suc m)) [0..<n])
             = sum_list (map (\<lambda>j. ?f m j + (if j = ?c then 1 else 0)) [0..<n])"
    by (rule arg_cong)
  also have "\<dots> = sum_list (map (?f m) [0..<n]) + sum_list (map (\<lambda>j. if j = ?c then 1 else 0) [0..<n])"
    by (rule sum_list_addf)
  also have "sum_list (map (?f m) [0..<n]) = real (Suc m)"
    using Suc by simp
  also have "sum_list (map (\<lambda>j. if j = ?c then 1 else 0) [0..<n]) = (1::real)"
  proof -
    have "?c < n" using Suc.prems assms by auto
    then show ?thesis by (simp only: delta_sum if_True)
  qed
  finally show ?case by simp
qed

lemma has_shape_wrapped: "has_shape (wrapped n m) (int n, int n)"
  by (simp add: has_shape_def wrapped_def list_all_iff)

lemma binary_wrapped: "list_all (list_all (\<lambda>x. x = 0 \<or> x = 1)) (wrapped n m)"
  by (auto simp add: wrapped_def list_all_iff)

lemma length_wrapped: "length (wrapped n m) = n"
  by (simp add: wrapped_def)

lemma trace_wrapped: "trace (wrapped n m) = real n"
proof -
  have "wrapped n m ! i ! i = 1" if "i < n" for i
    using that by (simp add: wrapped_def)
  then have "map (\<lambda>i. wrapped n m ! i ! i) [0..<n] = map (\<lambda>i. 1) [0..<n]"
    by simp
  then have "map (\<lambda>i. wrapped n m ! i ! i) [0..<n] = replicate n 1"
    by (simp only: map_replicate_const length_upt diff_zero)
  then have "trace (wrapped n m) = sum_list (replicate n (1::real))"
    by (simp only: trace_def length_wrapped)
  then show ?thesis
    by (simp add: sum_list_replicate)
qed

lemma sum_axis1_wrapped:
  assumes "m < n"
  shows "sum_axis1 (wrapped n m) = replicate n (real (Suc m))"
proof -
  have "map sum_list (wrapped n m) = map (\<lambda>i. real (Suc m)) [0..<n]"
    using assms by (simp add: wrapped_def wrapped_row_sum comp_def)
  then show ?thesis
    by (simp add: sum_axis1_def map_replicate_const)
qed

lemma sum_all_wrapped:
  assumes "m < n"
  shows "sum_all (wrapped n m) = real n * real (Suc m)"
proof -
  have "sum_all (wrapped n m) = sum_list (sum_axis1 (wrapped n m))"
    by (simp add: sum_all_def sum_axis1_def)
  then show ?thesis
    by (simp only: sum_axis1_wrapped [OF assms] sum_list_replicate)
qed

text \<open>
  Claim C6. For \<open>0 \<le> K < N\<close> the default matrix that
  \<^verbatim>\<open>_construct_sequential_dependency_matrix\<close> builds, the one a landscape
  constructed without a matrix holds, satisfies every rule of the validation: the
  shape \<open>(N, N)\<close>, entries 0 or 1, trace \<open>N\<close>, every row summing to
  \<open>K + 1\<close>, and the identity matrix when \<open>K = 0\<close>. The check itself, read with
  the instance's \<open>K\<close>, accepts it.
\<close>

theorem sequential_matrix_valid:
  assumes "0 \<le> k" "k < n"
  shows "\<exists>dm. construct_sequential_dependency_matrix n k = Inr dm \<and>
           init gK rnd (Some n) (Some k) None (Some fm)
             = Inr \<lparr>N = n, K = k, dependency_matrix = dm, fitness_mapping = fm\<rparr> \<and>
           has_shape dm (n, n) \<and>
           array_equal dm (astype_bool dm) \<and>
           trace dm = of_int n \<and>
           array_equal (sum_axis1 dm) (replicate (nat n) (of_int (k + 1))) \<and>
           (k = 0 \<longrightarrow> dm = identity (nat n)) \<and>
           check_dependency_matrix (Some k) n k dm = Inr ()"
proof -
  let ?dm = "wrapped (nat n) (nat k)"
  have n: "0 \<le> n" and kn: "nat k < nat n"
    using assms by simp_all
  have built: "construct_sequential_dependency_matrix n k = Inr ?dm"
    using assms by (rule construct_sequential_wrapped)
  have constructed: "init gK rnd (Some n) (Some k) None (Some fm)
      = Inr \<lparr>N = n, K = k, dependency_matrix = ?dm, fitness_mapping = fm\<rparr>"
    using assms by (simp add: init_def built)
  have shape: "has_shape ?dm (n, n)"
    using has_shape_wrapped [of "nat n" "nat k"] n by simp
  have binary: "array_equal ?dm (astype_bool ?dm)"
    by (simp add: astype_bool_fixed_iff binary_wrapped)
  have tr: "trace ?dm = of_int n"
    using n by (simp add: trace_wrapped)
  have "real (Suc (nat k)) = of_int (k + 1)"
    using assms(1) by simp
  then have rows: "array_equal (sum_axis1 ?dm) (replicate (nat n) (of_int (k + 1)))"
    by (simp add: array_equal_def sum_axis1_wrapped [OF kn])
  have ident: "k = 0 \<longrightarrow> ?dm = identity (nat n)"
    by (simp add: identity_wrapped)
  have "sum_all ?dm = of_int n" if "k = 0"
    using sum_all_wrapped [OF kn] n that by simp
  then have "check_dependency_matrix (Some k) n k ?dm = Inr ()"
    using shape binary tr rows by (simp add: check_dependency_matrix_def)
  with built constructed shape binary tr rows ident show ?thesis
    by blast
qed

theorem sequential_matrix_valid_witness:
  "construct_sequential_dependency_matrix 4 2
     = Inr [[1, 1, 1, 0], [0, 1, 1, 1], [1, 0, 1, 1], [1, 1, 0, 1]] \<and>
   check_dependency_matrix (Some 2) 4 2
     [[1, 1, 1, 0], [0, 1, 1, 1], [1, 0, 1, 1], [1, 1, 0, 1]] = Inr ()"
proof -
  have "construct_sequential_dependency_matrix 4 2
        = Inr [[1, 1, 1, 0], [0, 1, 1, 1], [1, 0, 1, 1], [1, 1, 0, 1]]"
    by (simp add: construct_sequential_dependency_matrix_def identity_def eye_def
        add_arrays_def astype_int_def trunc_def upt_conv_Cons)
  with sequential_matrix_valid [of 2 4] show ?thesis
    by auto
qed

text \<open>
  The bound the constructor does test. For every positive \<open>N\<close>, construction
  with the default matrix accepts \<open>K = N - 1\<close>, no construction with
  \<open>K = N - 1\<close> ends in the range error, and every construction with
  \<open>K \<ge> N\<close> does.
\<close>

lemma init_K_upper_bound:
  assumes "0 < n"
  shows "(\<exists>self. init gK rnd (Some n) (Some (n - 1)) None fm_arg = Inr self \<and>
            N self = n \<and> K self = n - 1) \<and>
         (\<forall>dm. init gK rnd (Some n) (Some (n - 1)) dm fm_arg
            \<noteq> Inl (ValueError (K_must_be_less_than_N n))) \<and>
         (\<forall>k dm. n \<le> k \<longrightarrow>
            init gK rnd (Some n) (Some k) dm fm_arg = Inl (ValueError (K_must_be_less_than_N n)))"
proof (intro conjI allI impI)
  have built: "construct_sequential_dependency_matrix n (n - 1)
               = Inr (wrapped (nat n) (nat (n - 1)))"
    using assms by (intro construct_sequential_wrapped) simp_all
  show "\<exists>self. init gK rnd (Some n) (Some (n - 1)) None fm_arg = Inr self \<and>
          N self = n \<and> K self = n - 1"
    using assms by (cases fm_arg) (simp_all add: init_def built uniform_def fill_def)
next
  fix dm
  show "init gK rnd (Some n) (Some (n - 1)) dm fm_arg
          \<noteq> Inl (ValueError (K_must_be_less_than_N n))"
    using assms
    by (auto simp add: init_def construct_sequential_wrapped check_dependency_matrix_def
        uniform_def fill_def split: option.splits sum.splits if_splits)
next
  fix k :: int and dm
  assume "n \<le> k"
  then show "init gK rnd (Some n) (Some k) dm fm_arg = Inl (ValueError (K_must_be_less_than_N n))"
    by (simp add: init_def)
qed

text \<open>
  Claim C5 (a defect of the code). Construction should accept \<open>K = N - 1\<close>, fail
  with the range error for \<open>K \<ge> N\<close> and fail for a negative \<open>K\<close>. The first
  two hold (\<open>init_K_upper_bound\<close>); the constructor has no test for a negative
  \<open>K\<close>, although the docstring of the class calls \<open>K\<close> the number of
  dependencies of a position and asks every row of the matrix to sum to
  \<open>K + 1\<close>. For \<open>N = 3\<close>, \<open>K = -1\<close> and no other argument it returns a
  landscape with the identity matrix and a mapping of one column. That object is
  unusable: the class's own check, read with the instance's \<open>K\<close>, refuses its
  matrix (the rows sum to 1, not to 0), and \<open>calculate_fitness\<close> raises
  \<^verbatim>\<open>IndexError\<close> on the solution \<open>[1, 0, 0]\<close>. With \<open>K = -2\<close> the same call
  does fail, by accident: numpy refuses the dimension \<^verbatim>\<open>2**(-1)\<close> of the default
  mapping with \<^verbatim>\<open>TypeError\<close>; with a supplied mapping it returns a landscape
  again.
\<close>

theorem init_accepts_negative_K:
  "init gK real (Some 3) (Some (- 1)) None None
     = Inr \<lparr>N = 3, K = - 1, dependency_matrix = [[1, 0, 0], [0, 1, 0], [0, 0, 1]],
            fitness_mapping = [[0], [1], [2]]\<rparr> \<and>
   check_dependency_matrix (Some (- 1)) 3 (- 1) [[1, 0, 0], [0, 1, 0], [0, 0, 1]]
     = Inl (ValueError (Rows_must_sum_to (- 1))) \<and>
   calculate_fitness
     \<lparr>N = 3, K = - 1, dependency_matrix = [[1, 0, 0], [0, 1, 0], [0, 0, 1]],
      fitness_mapping = [[0], [1], [2 :: real]]\<rparr> [1, 0, 0] = Inl IndexError \<and>
   init gK real (Some 3) (Some (- 2)) None None = Inl TypeError \<and>
   init gK real (Some 3) (Some (- 2)) None (Some [[0], [1], [2]])
     = Inr \<lparr>N = 3, K = - 2, dependency_matrix = [[1, 0, 0], [0, 1, 0], [0, 0, 1]],
            fitness_mapping = [[0], [1], [2]]\<rparr>"
proof -
  have built: "construct_sequential_dependency_matrix 3 k = Inr [[1, 0, 0], [0, 1, 0], [0, 0, 1]]"
    if "k < 0" for k
    using that
    by (simp add: construct_sequential_dependency_matrix_def identity_def eye_def
        astype_int_def trunc_def upt_conv_Cons)
  have "init gK real (Some 3) (Some (- 1)) None None
     = Inr \<lparr>N = 3, K = - 1, dependency_matrix = [[1, 0, 0], [0, 1, 0], [0, 0, 1]],
            fitness_mapping = [[0], [1], [2]]\<rparr>"
    by (simp add: init_def built uniform_def fill_def upt_conv_Cons)
  moreover have "check_dependency_matrix (Some (- 1)) 3 (- 1) [[1, 0, 0], [0, 1, 0], [0, 0, 1]]
     = Inl (ValueError (Rows_must_sum_to (- 1)))"
    by (simp add: check_dependency_matrix_def has_shape_def array_equal_def astype_bool_def
        trace_def sum_axis1_def upt_conv_Cons eval_nat_numeral)
  moreover have "calculate_fitness
     \<lparr>N = 3, K = - 1, dependency_matrix = [[1, 0, 0], [0, 1, 0], [0, 0, 1]],
      fitness_mapping = [[0], [1], [2 :: real]]\<rparr> [1, 0, 0] = Inl IndexError"
    by (simp add: calculate_fitness_def decimal_at_def dependency_indicies_def
        rolled_dependency_indicies_def gather_def binary_to_decimal_def contribution_def
        getitem_def upt_conv_Cons)
  moreover have "init gK real (Some 3) (Some (- 2)) None None = Inl TypeError"
    by (simp add: init_def built)
  moreover have "init gK real (Some 3) (Some (- 2)) None (Some [[0], [1], [2]])
     = Inr \<lparr>N = 3, K = - 2, dependency_matrix = [[1, 0, 0], [0, 1, 0], [0, 0, 1]],
            fitness_mapping = [[0], [1], [2]]\<rparr>"
    by (simp add: init_def built)
  ultimately show ?thesis
    by simp
qed

subsection \<open>The default matrix of \<open>N = 3\<close>, \<open>K = 1\<close>\<close>

text \<open>
  Claim C7. The landscape built with \<open>N = 3\<close>, \<open>K = 1\<close> and no dependency
  matrix has the dependency indices \<open>{0, 1}\<close> in row 0, \<open>{1, 2}\<close> in row 1 and
  \<open>{2, 0}\<close> in row 2, and the rolled indices of row 2 are \<open>[2, 0]\<close>: itself
  first, then the wrap-around. This holds whatever the global binding of \<open>K\<close>,
  the random source and the fitness mapping are.
\<close>

theorem sequential_3_1_dependency_indices:
  "case init gK rnd (Some 3) (Some 1) None fm_arg of
     Inl e \<Rightarrow> False
   | Inr self \<Rightarrow>
       set (dependency_indicies (dependency_matrix self ! 0)) = {0, 1} \<and>
       set (dependency_indicies (dependency_matrix self ! 1)) = {1, 2} \<and>
       set (dependency_indicies (dependency_matrix self ! 2)) = {2, 0} \<and>
       rolled_dependency_indicies (dependency_indicies (dependency_matrix self ! 2)) 2
         = Inr [2, 0]"
proof -
  have dm: "construct_sequential_dependency_matrix 3 1 = Inr [[1,1,0],[0,1,1],[1,0,1]]"
    by (simp add: construct_sequential_dependency_matrix_def identity_def eye_def
        add_arrays_def astype_int_def trunc_def upt_conv_Cons)
  have idx: "dependency_indicies [1,1,0] = [0,1]" "dependency_indicies [0,1,1] = [1,2]"
    "dependency_indicies [1,0,1] = [0,2]"
    by (simp_all add: dependency_indicies_def upt_conv_Cons)
  have roll: "rolled_dependency_indicies [0,2] 2 = Inr [2,0]"
    by (simp add: rolled_dependency_indicies_def upt_conv_Cons)
  show ?thesis
    by (cases fm_arg) (auto simp add: init_def dm idx roll uniform_def fill_def)
qed

subsection \<open>The setter\<close>

text \<open>
  Claim C3 (a defect of the code). A call of \<^verbatim>\<open>set_dependency_matrix\<close> with a
  matrix that fails the validation should leave the stored matrix as it was. The
  method assigns before it checks: on the valid landscape with \<open>N = 2\<close>, \<open>K = 1\<close>
  and the matrix \<open>[[1, 1], [1, 1]]\<close>, the call with \<open>[[2, 0], [0, 1]]\<close> raises the
  \<^verbatim>\<open>ValueError\<close> of the non-binary entries and leaves \<open>[[2, 0], [0, 1]]\<close>
  stored. Whatever the outcome of the check, the object holds the new matrix after
  the call.
\<close>

theorem set_dependency_matrix_keeps_rejected_matrix:
  "set_dependency_matrix gK
     \<lparr>N = 2, K = 1, dependency_matrix = [[1, 1], [1, 1]], fitness_mapping = fm\<rparr>
     [[2, 0], [0, 1]]
   = (Inl (ValueError Matrix_must_be_binary),
      \<lparr>N = 2, K = 1, dependency_matrix = [[2, 0], [0, 1]], fitness_mapping = fm\<rparr>) \<and>
   get_dependency_matrix (snd (set_dependency_matrix gK self dm)) = dm"
  by (simp add: set_dependency_matrix_def check_dependency_matrix_def has_shape_def
      array_equal_def astype_bool_def get_dependency_matrix_def Let_def)

subsection \<open>Random solutions\<close>

text \<open>
  Claim C9 (amended). For \<open>num \<ge> 0\<close> on a landscape with \<open>N \<ge> 0\<close>,
  \<^verbatim>\<open>generate_solutions(num)\<close> returns \<open>num\<close> rows of length \<open>N\<close> whose
  entries are all 0 or 1; for \<open>num = 0\<close> that is the empty array, not an error. It
  fails with \<^verbatim>\<open>ValueError\<close> when \<open>num\<close> is not given, and (inside numpy)
  when \<open>num\<close> is negative.
\<close>

theorem generate_solutions_shape:
  "(0 \<le> num \<and> 0 \<le> N self \<longrightarrow>
      (\<exists>sols. generate_solutions rnd self (Some num) = Inr sols \<and>
          has_shape sols (num, N self) \<and>
          list_all (list_all (\<lambda>bit. bit = 0 \<or> bit = 1)) sols)) \<and>
   (num < 0 \<longrightarrow>
      generate_solutions rnd self (Some num) = Inl (ValueError Negative_dimensions)) \<and>
   generate_solutions rnd self None
     = Inl (ValueError Number_of_solutions_must_be_specified)"
  by (auto simp add: generate_solutions_def randint_def fill_def has_shape_def list_all_iff)

theorem generate_solutions_shape_witness:
  "generate_solutions id
     \<lparr>N = 3, K = 0, dependency_matrix = [[1, 0, 0], [0, 1, 0], [0, 0, 1]],
      fitness_mapping = [[0, 1], [1, 0], [0, 1 :: real]]\<rparr> (Some 2)
     = Inr [[0, 1, 0], [1, 0, 1]] \<and>
   has_shape [[0, 1, 0], [1, 0, 1 :: int]] (2, 3) \<and>
   generate_solutions id
     \<lparr>N = 3, K = 0, dependency_matrix = [[1, 0, 0], [0, 1, 0], [0, 0, 1]],
      fitness_mapping = [[0, 1], [1, 0], [0, 1 :: real]]\<rparr> (Some (- 1))
     = Inl (ValueError Negative_dimensions)"
  using generate_solutions_shape [of 2
      "\<lparr>N = 3, K = 0, dependency_matrix = [[1, 0, 0], [0, 1, 0], [0, 0, 1]],
        fitness_mapping = [[0, 1], [1, 0], [0, 1 :: real]]\<rparr>" id]
    generate_solutions_shape [of "- 1"
      "\<lparr>N = 3, K = 0, dependency_matrix = [[1, 0, 0], [0, 1, 0], [0, 0, 1]],
        fitness_mapping = [[0, 1], [1, 0], [0, 1 :: real]]\<rparr>" id]
  by (simp add: generate_solutions_def randint_def fill_def has_shape_def upt_conv_Cons)

text \<open>
  The claim as first stated fails at \<open>num = 0\<close>, which is not positive: the call
  returns the empty array.
\<close>

theorem generate_solutions_zero_counterexample:
  "generate_solutions id
     \<lparr>N = 3, K = 0, dependency_matrix = [[1, 0, 0], [0, 1, 0], [0, 0, 1]],
      fitness_mapping = [[0, 1], [1, 0], [0, 1 :: real]]\<rparr> (Some 0) = Inr []"
  by (simp add: generate_solutions_def randint_def fill_def)

subsection \<open>The index of a bit string\<close>

lemma foldl_plus_upt:
  "foldl (\<lambda>d i. d + f i) a [0..<n] = a + (\<Sum>i<n. f i :: int)"
  by (induction n) simp_all

lemma binary_to_decimal_sum:
  "binary_to_decimal bs = (\<Sum>i<length bs. bs ! (length bs - i - 1) * 2 ^ i)"
  by (simp add: binary_to_decimal_def foldl_plus_upt)

lemma binary_to_decimal_snoc:
  "binary_to_decimal (bs @ [b]) = 2 * binary_to_decimal bs + b"
proof -
  let ?n = "length bs"
  have "binary_to_decimal (bs @ [b])
        = (\<Sum>i<Suc ?n. (bs @ [b]) ! (Suc ?n - i - 1) * 2 ^ i)"
    by (simp add: binary_to_decimal_sum)
  also have "\<dots> = b + (\<Sum>i<?n. (bs @ [b]) ! (Suc ?n - Suc i - 1) * 2 ^ Suc i)"
    by (simp only: sum.lessThan_Suc_shift) simp
  also have "(\<Sum>i<?n. (bs @ [b]) ! (Suc ?n - Suc i - 1) * 2 ^ Suc i)
             = (\<Sum>i<?n. 2 * (bs ! (?n - i - 1) * 2 ^ i))"
    by (rule sum.cong) (auto simp add: nth_append)
  also have "\<dots> = 2 * binary_to_decimal bs"
    by (simp add: binary_to_decimal_sum sum_distrib_left)
  finally show ?thesis by simp
qed

lemma binary_to_decimal_Nil: "binary_to_decimal [] = 0"
  by (simp add: binary_to_decimal_def)

text \<open>The loop of \<^verbatim>\<open>_binary_to_decimal\<close> reads the string most significant bit first.\<close>

lemma binary_to_decimal_msb_first: "binary_to_decimal bs = spec_msb_first bs"
proof (induction bs rule: rev_induct)
  case Nil
  show ?case by (simp add: binary_to_decimal_Nil spec_msb_first_def)
next
  case (snoc b bs)
  then show ?case by (simp add: binary_to_decimal_snoc spec_msb_first_def)
qed

lemma binary_to_decimal_bounds:
  "list_all (\<lambda>b. b = 0 \<or> b = 1) bs \<Longrightarrow>
   0 \<le> binary_to_decimal bs \<and> binary_to_decimal bs < 2 ^ length bs"
proof (induction bs rule: rev_induct)
  case Nil
  show ?case by (simp add: binary_to_decimal_Nil)
next
  case (snoc b bs)
  then show ?case by (auto simp add: binary_to_decimal_snoc)
qed

text \<open>
  Every value the loop of \<^verbatim>\<open>_binary_to_decimal\<close> holds on a string of zeros and
  ones, after \<open>m\<close> of its iterations, lies below \<open>2 ^ m\<close>, and so does every
  product it adds. On a string of at most 63 bits nothing leaves the range of a
  signed 64-bit integer, and the integers without bound of this theory are the
  values numpy computes.
\<close>

lemma binary_to_decimal_no_overflow:
  fixes binary :: "int list"
  assumes "list_all (\<lambda>b. b = 0 \<or> b = 1) binary" "m \<le> length binary"
  shows "0 \<le> foldl (\<lambda>decimal i. decimal + binary ! (length binary - i - 1) * 2 ^ i) 0 [0..<m] \<and>
         foldl (\<lambda>decimal i. decimal + binary ! (length binary - i - 1) * 2 ^ i) 0 [0..<m] < 2 ^ m"
  using assms(2)
proof (induction m)
  case 0
  show ?case by simp
next
  case (Suc m)
  let ?b = "binary ! (length binary - m - 1)"
  have "?b \<in> set binary"
    using Suc.prems by simp
  then have "?b = 0 \<or> ?b = 1"
    using assms(1) unfolding list_all_iff by blast
  then show ?case
    using Suc by auto
qed

subsection \<open>The dependency indices and their roll\<close>

lemma dependency_indicies_less: "j \<in> set (dependency_indicies row) \<Longrightarrow> j < length row"
  by (simp add: dependency_indicies_def)

lemma length_filter_nth:
  "length (filter (\<lambda>j. P (xs ! j)) [0..<length xs]) = length (filter P xs)"
proof -
  have "length (filter P (map (\<lambda>j. xs ! j) [0..<length xs]))
        = length (filter (P \<circ> (\<lambda>j. xs ! j)) [0..<length xs])"
    by (simp only: filter_map length_map)
  then show ?thesis
    by (simp add: map_nth comp_def)
qed

lemma count_ones_binary:
  "list_all (\<lambda>x. x = 0 \<or> x = 1) row \<Longrightarrow> real (length (filter (\<lambda>x. x = 1) row)) = sum_list row"
  by (induction row) auto

text \<open>A row of zeros and ones has as many dependency indices as its sum.\<close>

lemma length_dependency_indicies:
  "list_all (\<lambda>x. x = 0 \<or> x = 1) row \<Longrightarrow> real (length (dependency_indicies row)) = sum_list row"
  using length_filter_nth [of "\<lambda>x. x = 1" row]
  by (simp add: dependency_indicies_def count_ones_binary)

lemma dependency_indicies_split:
  assumes "i < length row" "row ! i = 1"
  shows "dependency_indicies row
         = filter (\<lambda>j. row ! j = 1) [0..<i] @ filter (\<lambda>j. row ! j = 1) [i..<length row]"
proof -
  have "[0..<length row] = [0..<i] @ [i..<length row]"
    using assms(1) upt_add_eq_append [of 0 i "length row - i"] by simp
  then show ?thesis
    by (simp add: dependency_indicies_def)
qed

lemma first_position:
  assumes "p < length di" "di ! p = i" "\<And>q. q < p \<Longrightarrow> di ! q \<noteq> i"
  shows "filter (\<lambda>q. di ! q = i) [0..<length di]
         = p # filter (\<lambda>q. di ! q = i) [Suc p..<length di]"
proof -
  have "[0..<length di] = [0..<p] @ [p..<length di]"
    using assms(1) upt_add_eq_append [of 0 p "length di - p"] by simp
  moreover have "[p..<length di] = p # [Suc p..<length di]"
    using assms(1) by (simp add: upt_conv_Cons)
  moreover have "filter (\<lambda>q. di ! q = i) [0..<p] = []"
    using assms(3) by (simp add: filter_empty_conv)
  ultimately show ?thesis
    using assms(2) by simp
qed

text \<open>
  Where row \<open>i\<close> has a one on the diagonal, the roll of the class gives the
  indices in the order of the specification: \<open>i\<close> first, the larger ones, then the
  smaller ones.
\<close>

lemma rolled_is_spec_rotated:
  assumes "i < length row" "row ! i = 1"
  shows "rolled_dependency_indicies (dependency_indicies row) i
         = Inr (spec_rotated_indices row i)"
proof -
  let ?P = "\<lambda>j. row ! j = 1"
  let ?xs = "filter ?P [0..<i]"
  let ?ys = "filter ?P [Suc i..<length row]"
  have tail: "filter ?P [i..<length row] = i # ?ys"
    using assms by (simp add: upt_conv_Cons)
  have di: "dependency_indicies row = ?xs @ i # ?ys"
    using dependency_indicies_split [OF assms] tail by simp
  have "filter (\<lambda>q. (?xs @ i # ?ys) ! q = i) [0..<length (?xs @ i # ?ys)]
        = length ?xs # filter (\<lambda>q. (?xs @ i # ?ys) ! q = i) [Suc (length ?xs)..<length (?xs @ i # ?ys)]"
  proof (rule first_position)
    show "length ?xs < length (?xs @ i # ?ys)" by simp
    show "(?xs @ i # ?ys) ! length ?xs = i" by simp
    show "(?xs @ i # ?ys) ! q \<noteq> i" if "q < length ?xs" for q
    proof -
      have "?xs ! q \<in> set ?xs" using that by (rule nth_mem)
      then have "?xs ! q < i" by simp
      then show ?thesis using that by (simp add: nth_append)
    qed
  qed
  then have "rolled_dependency_indicies (?xs @ i # ?ys) i = Inr (rotate (length ?xs) (?xs @ i # ?ys))"
    by (simp only: rolled_dependency_indicies_def list.case)
  also have "rotate (length ?xs) (?xs @ i # ?ys) = (i # ?ys) @ ?xs"
    by (rule rotate_append)
  finally show ?thesis
    by (simp add: di spec_rotated_indices_def tail)
qed

lemma rolled_set_length:
  assumes "rolled_dependency_indicies di i = Inr r"
  shows "set r = set di \<and> length r = length di"
  using assms
  by (auto simp add: rolled_dependency_indicies_def split: list.splits)

lemma gather_in_range:
  assumes "\<And>j. j \<in> set idx \<Longrightarrow> j < length xs"
  shows "gather xs idx = Inr (map (\<lambda>j. xs ! j) idx)"
  using assms by (simp add: gather_def list_all_iff)

subsection \<open>The index computed in the loop\<close>

lemma decimal_at_bounds:
  assumes shape: "has_shape (dependency_matrix self) (N self, N self)"
    and binary: "array_equal (dependency_matrix self) (astype_bool (dependency_matrix self))"
    and rows: "array_equal (sum_axis1 (dependency_matrix self))
                 (replicate (nat (N self)) (of_int (K self + 1)))"
    and sol: "int (length solution) = N self" "list_all (\<lambda>bit. bit = 0 \<or> bit = 1) solution"
    and i: "i < nat (N self)"
    and d: "decimal_at self solution i = Inr d"
  shows "0 \<le> d \<and> d < 2 ^ nat (K self + 1)"
proof -
  let ?dm = "dependency_matrix self"
  let ?row = "?dm ! i"
  have len: "length ?dm = nat (N self)"
    using shape by (auto simp add: has_shape_def)
  then have mem: "?row \<in> set ?dm" using i by simp
  have row_bin: "list_all (\<lambda>x. x = 0 \<or> x = 1) ?row"
    using binary mem by (simp add: astype_bool_fixed_iff list_all_iff)
  have "sum_axis1 ?dm ! i = replicate (nat (N self)) (of_int (K self + 1)) ! i"
    using rows by (simp add: array_equal_def)
  then have row_sum: "sum_list ?row = of_int (K self + 1)"
    using i len by (simp add: sum_axis1_def)
  have ones: "real (length (dependency_indicies ?row)) = of_int (K self + 1)"
    using length_dependency_indicies [OF row_bin] row_sum by simp
  from d obtain rolled where
    r: "rolled_dependency_indicies (dependency_indicies ?row) i = Inr rolled"
    and dd: "d = binary_to_decimal (map (\<lambda>j. solution ! j) rolled)"
    and inr: "list_all (\<lambda>j. j < length solution) rolled"
    by (auto simp add: decimal_at_def gather_def split: if_splits sum.splits)
  have "length rolled = length (dependency_indicies ?row)"
    using rolled_set_length [OF r] by simp
  then have "real (length rolled) = of_int (K self + 1)"
    using ones by simp
  then have n: "length rolled = nat (K self + 1)"
    by linarith
  have "list_all (\<lambda>bit. bit = 0 \<or> bit = 1) (map (\<lambda>j. solution ! j) rolled)"
    using inr sol(2) by (auto simp add: list_all_iff)
  from binary_to_decimal_bounds [OF this] show ?thesis
    by (simp add: dd n)
qed

lemma contribution_in_bounds:
  assumes "has_shape (fitness_mapping self) (N self, c)" "i < nat (N self)" "0 \<le> d" "d < c"
  shows "contribution self i d = Inr (fitness_mapping self ! i ! nat d)"
proof -
  have "length (fitness_mapping self) = nat (N self)"
    using assms(1) by (auto simp add: has_shape_def)
  moreover from this have "fitness_mapping self ! i \<in> set (fitness_mapping self)"
    using assms(2) by simp
  then have "int (length (fitness_mapping self ! i)) = c"
    using assms(1) by (auto simp add: has_shape_def list_all_iff)
  ultimately show ?thesis
    using assms(2-4) by (simp add: contribution_def getitem_def)
qed

lemma decimal_at_spec:
  assumes shape: "has_shape (dependency_matrix self) (N self, N self)"
    and sol: "int (length solution) = N self"
    and i: "i < nat (N self)"
    and diag: "dependency_matrix self ! i ! i = 1"
  shows "decimal_at self solution i = Inr (spec_d self solution i)"
proof -
  let ?dm = "dependency_matrix self"
  let ?row = "?dm ! i"
  have len: "length ?dm = nat (N self)"
    using shape by (auto simp add: has_shape_def)
  then have mem: "?row \<in> set ?dm" using i by simp
  have row_len: "length ?row = nat (N self)"
    using shape mem by (auto simp add: has_shape_def list_all_iff)
  have r: "rolled_dependency_indicies (dependency_indicies ?row) i
           = Inr (spec_rotated_indices ?row i)"
    using i row_len diag by (intro rolled_is_spec_rotated) simp_all
  have "j < length solution" if "j \<in> set (spec_rotated_indices ?row i)" for j
  proof -
    have "j \<in> set (dependency_indicies ?row)"
      using rolled_set_length [OF r] that by simp
    then show ?thesis
      using dependency_indicies_less [of j ?row] row_len sol by simp
  qed
  then have "gather solution (spec_rotated_indices ?row i)
             = Inr (map (\<lambda>j. solution ! j) (spec_rotated_indices ?row i))"
    by (rule gather_in_range)
  then show ?thesis
    using i len by (simp add: decimal_at_def r spec_d_def binary_to_decimal_msb_first)
qed

lemma sum_list_le_length:
  "\<forall>x\<in>set xs. x \<le> (1::real) \<Longrightarrow> sum_list xs \<le> real (length xs)"
  by (induction xs) auto

lemma sum_list_full_ones:
  "\<forall>x\<in>set xs. x \<le> (1::real) \<Longrightarrow> sum_list xs = real (length xs) \<Longrightarrow> \<forall>x\<in>set xs. x = 1"
proof (induction xs)
  case Nil
  show ?case by simp
next
  case (Cons x xs)
  have "sum_list xs \<le> real (length xs)" "x \<le> 1"
    using Cons.prems(1) by (simp_all add: sum_list_le_length)
  with Cons.prems(2) have "x = 1" "sum_list xs = real (length xs)"
    by simp_all
  with Cons show ?case by simp
qed

text \<open>A square matrix of zeros and ones with trace \<open>n\<close> has a one at every place
  of its diagonal.\<close>

lemma trace_diagonal:
  assumes shape: "has_shape a (n, n)"
    and binary: "list_all (list_all (\<lambda>x. x = 0 \<or> x = 1)) a"
    and tr: "trace a = of_int n"
    and i: "i < nat n"
  shows "a ! i ! i = 1"
proof -
  let ?diag = "map (\<lambda>i. a ! i ! i) [0..<length a]"
  have len: "length a = nat n" "0 \<le> n"
    using shape by (auto simp add: has_shape_def)
  have "a ! j ! j \<le> 1" if "j < length a" for j
  proof -
    have aj: "a ! j \<in> set a" using that by simp
    have "length (a ! j) = nat n"
      using shape aj unfolding has_shape_def list_all_iff by auto
    then have "a ! j ! j \<in> set (a ! j)"
      using that len by simp
    moreover have "list_all (\<lambda>x. x = 0 \<or> x = 1) (a ! j)"
      using binary aj unfolding list_all_iff by blast
    ultimately have "a ! j ! j = 0 \<or> a ! j ! j = 1"
      unfolding list_all_iff by blast
    then show ?thesis by auto
  qed
  then have "\<forall>x\<in>set ?diag. x \<le> 1" by auto
  moreover have "sum_list ?diag = real (length ?diag)"
    using tr len by (simp add: trace_def)
  ultimately have "\<forall>x\<in>set ?diag. x = 1"
    by (rule sum_list_full_ones)
  then show ?thesis
    using i len by simp
qed

lemma valid_landscape_unfold:
  "valid_landscape self \<longleftrightarrow>
     has_shape (dependency_matrix self) (N self, N self) \<and>
     array_equal (dependency_matrix self) (astype_bool (dependency_matrix self)) \<and>
     trace (dependency_matrix self) = of_int (N self) \<and>
     (K self = 0 \<longrightarrow> sum_all (dependency_matrix self) = of_int (N self)) \<and>
     array_equal (sum_axis1 (dependency_matrix self))
       (replicate (nat (N self)) (of_int (K self + 1))) \<and>
     has_shape (fitness_mapping self) (N self, 2 ^ nat (K self + 1))"
  by (auto simp add: valid_landscape_def check_dependency_matrix_def split: if_splits)

text \<open>
  Claim C10. On a landscape whose dependency matrix has the shape \<open>(N, N)\<close>,
  entries 0 or 1 and rows summing to \<open>K + 1\<close>, and whose fitness mapping has the
  shape \<open>(N, 2 ^ (K + 1))\<close>, and for a solution of \<open>N\<close> zeros and ones: every
  index \<open>d\<close> that an iteration \<open>i < N\<close> of \<open>calculate_fitness\<close> computes
  satisfies \<open>0 \<le> d < 2 ^ (K + 1)\<close>, and the lookup
  \<^verbatim>\<open>fitness_mapping[i, d]\<close> finds the entry at row \<open>i\<close>, column \<open>d\<close>. Where
  the diagonal entry of row \<open>i\<close> is one, the iteration does compute an index.
\<close>

theorem decimal_in_bounds:
  assumes "has_shape (dependency_matrix self) (N self, N self)"
    and "array_equal (dependency_matrix self) (astype_bool (dependency_matrix self))"
    and "array_equal (sum_axis1 (dependency_matrix self))
           (replicate (nat (N self)) (of_int (K self + 1)))"
    and "has_shape (fitness_mapping self) (N self, 2 ^ nat (K self + 1))"
    and "int (length solution) = N self"
    and "list_all (\<lambda>bit. bit = 0 \<or> bit = 1) solution"
    and "i < nat (N self)"
  shows "(\<forall>d. decimal_at self solution i = Inr d \<longrightarrow>
            0 \<le> d \<and> d < 2 ^ nat (K self + 1) \<and>
            contribution self i d = Inr (fitness_mapping self ! i ! nat d)) \<and>
         (dependency_matrix self ! i ! i = 1 \<longrightarrow>
            (\<exists>d. decimal_at self solution i = Inr d))"
proof (intro conjI allI impI)
  fix d
  assume d: "decimal_at self solution i = Inr d"
  from decimal_at_bounds [OF assms(1-3) assms(5-7) d]
  show "0 \<le> d" and "d < 2 ^ nat (K self + 1)"
    by simp_all
  then show "contribution self i d = Inr (fitness_mapping self ! i ! nat d)"
    using contribution_in_bounds [OF assms(4) assms(7)] by simp
next
  assume "dependency_matrix self ! i ! i = 1"
  with assms(1) assms(5) assms(7) have "decimal_at self solution i = Inr (spec_d self solution i)"
    by (rule decimal_at_spec)
  then show "\<exists>d. decimal_at self solution i = Inr d" ..
qed

theorem decimal_in_bounds_witness:
  "decimal_at
     \<lparr>N = 3, K = 1, dependency_matrix = [[1, 1, 0], [0, 1, 1], [1, 0, 1]],
      fitness_mapping = [[1, 2, 3, 4], [5, 6, 7, 8], [9, 10, 11, 12 :: real]]\<rparr>
     [1, 0, 1] 2 = Inr 3 \<and>
   (0::int) \<le> 3 \<and> (3::int) < 2 ^ nat (1 + 1) \<and>
   contribution
     \<lparr>N = 3, K = 1, dependency_matrix = [[1, 1, 0], [0, 1, 1], [1, 0, 1]],
      fitness_mapping = [[1, 2, 3, 4], [5, 6, 7, 8], [9, 10, 11, 12 :: real]]\<rparr>
     2 3 = Inr 12"
proof -
  let ?self = "\<lparr>N = 3, K = 1, dependency_matrix = [[1, 1, 0], [0, 1, 1], [1, 0, 1]],
      fitness_mapping = [[1, 2, 3, 4], [5, 6, 7, 8], [9, 10, 11, 12 :: real]]\<rparr>"
  have d: "decimal_at ?self [1, 0, 1] 2 = Inr 3"
    by (simp add: decimal_at_def dependency_indicies_def rolled_dependency_indicies_def
        gather_def binary_to_decimal_def upt_conv_Cons)
  have "has_shape (dependency_matrix ?self) (N ?self, N ?self)"
    "array_equal (dependency_matrix ?self) (astype_bool (dependency_matrix ?self))"
    "array_equal (sum_axis1 (dependency_matrix ?self))
       (replicate (nat (N ?self)) (of_int (K ?self + 1)))"
    "has_shape (fitness_mapping ?self) (N ?self, 2 ^ nat (K ?self + 1))"
    "int (length [1, 0, 1 :: int]) = N ?self"
    "list_all (\<lambda>bit. bit = 0 \<or> bit = 1) [1, 0, 1 :: int]"
    "2 < nat (N ?self)"
    by (simp_all add: has_shape_def array_equal_def astype_bool_def sum_axis1_def
        eval_nat_numeral)
  from decimal_in_bounds [OF this] d show ?thesis
    by simp
qed

subsection \<open>The fitness is the sum of the contributions\<close>

lemma fitness_loop_defined:
  assumes "\<And>i. i \<in> set idx \<Longrightarrow>
             decimal_at self solution i = Inr (d i) \<and> contribution self i (d i) = Inr (v i)"
  shows "fitness_loop self solution idx fitness = Inr (foldl (+) fitness (map v idx))"
  using assms
proof (induction idx arbitrary: fitness)
  case Nil
  show ?case by simp
next
  case (Cons i rest)
  then show ?case by simp
qed

lemma calculate_fitness_spec:
  assumes "valid_landscape self" "binary_solution self solution"
  shows "calculate_fitness self solution = Inr (spec_fitness self solution)"
proof -
  from assms(1) have
    shape: "has_shape (dependency_matrix self) (N self, N self)" and
    binary: "array_equal (dependency_matrix self) (astype_bool (dependency_matrix self))" and
    tr: "trace (dependency_matrix self) = of_int (N self)" and
    rows: "array_equal (sum_axis1 (dependency_matrix self))
             (replicate (nat (N self)) (of_int (K self + 1)))" and
    fm: "has_shape (fitness_mapping self) (N self, 2 ^ nat (K self + 1))"
    by (simp_all add: valid_landscape_unfold)
  from assms(2) have
    sol: "int (length solution) = N self" "list_all (\<lambda>bit. bit = 0 \<or> bit = 1) solution"
    by (simp_all add: binary_solution_def)
  have step: "decimal_at self solution i = Inr (spec_d self solution i) \<and>
        contribution self i (spec_d self solution i)
          = Inr (fitness_mapping self ! i ! nat (spec_d self solution i))"
    if "i \<in> set [0..<nat (N self)]" for i
  proof -
    have i: "i < nat (N self)" using that by simp
    have "dependency_matrix self ! i ! i = 1"
      using shape binary tr i by (intro trace_diagonal) (simp_all add: astype_bool_fixed_iff)
    then have d: "decimal_at self solution i = Inr (spec_d self solution i)"
      using shape sol(1) i by (intro decimal_at_spec)
    from decimal_at_bounds [OF shape binary rows sol i d]
    have "0 \<le> spec_d self solution i" "spec_d self solution i < 2 ^ nat (K self + 1)"
      by simp_all
    with contribution_in_bounds [OF fm i] d show ?thesis by simp
  qed
  show ?thesis
    unfolding calculate_fitness_def spec_fitness_def
    by (rule fitness_loop_defined) (rule step)
qed

text \<open>Where addition is associative and commutative with unit zero, as on the real
  numbers, the reference fitness is the sum over the positions.\<close>

lemma foldl_plus_sum_list:
  "foldl (+) a xs = a + sum_list (xs :: 'a::monoid_add list)"
  by (induction xs arbitrary: a) (simp_all add: add.assoc)

lemma spec_fitness_sum:
  "spec_fitness self solution
   = (\<Sum>i = 0..<nat (N self).
        (fitness_mapping self ! i ! nat (spec_d self solution i) :: 'a::comm_monoid_add))"
  by (simp add: spec_fitness_def foldl_plus_sum_list interv_sum_list_conv_sum_set_nat)

text \<open>
  Claim C2. For every valid landscape and every solution of \<open>N\<close> zeros and ones,
  \<open>calculate_fitness\<close> returns, without raising, the sum over the positions \<open>i\<close>
  of \<open>fitness_mapping[i, d\<^sub>i]\<close>, where \<open>d\<^sub>i\<close> is the value, most
  significant bit first, of the solution's bits at the dependency indices of row
  \<open>i\<close> rotated so that \<open>i\<close> is first (\<open>spec_fitness\<close>). In particular the
  landscape constructed with \<open>N = 4\<close>, \<open>K = 0\<close>, the default (identity) matrix
  and the mapping \<open>[[0, 1], [1, 0], [0, 1], [1, 0]]\<close> gives the solution
  \<open>[1, 0, 1, 0]\<close> the fitness 4.
\<close>

theorem calculate_fitness_is_sum:
  "(valid_landscape self \<and> binary_solution self solution \<longrightarrow>
      calculate_fitness self solution = Inr (spec_fitness self solution)) \<and>
   (case init gK rnd (Some 4) (Some 0) None (Some [[0, 1], [1, 0], [0, 1], [1, 0]]) of
      Inl e \<Rightarrow> False
    | Inr scenario \<Rightarrow>
        dependency_matrix scenario = identity 4 \<and>
        calculate_fitness scenario [1, 0, 1, 0] = Inr (4 :: real))"
proof
  show "valid_landscape self \<and> binary_solution self solution \<longrightarrow>
      calculate_fitness self solution = Inr (spec_fitness self solution)"
    by (simp add: calculate_fitness_spec)
next
  have built: "construct_sequential_dependency_matrix 4 0 = Inr (identity 4)"
    using construct_sequential_no_offsets [of 0 4] by simp
  have ident: "identity 4 = [[1, 0, 0, 0], [0, 1, 0, 0], [0, 0, 1, 0], [0, 0, 0, 1]]"
    by (simp add: identity_def eye_def upt_conv_Cons)
  have "calculate_fitness
          \<lparr>N = 4, K = 0,
           dependency_matrix = [[1, 0, 0, 0], [0, 1, 0, 0], [0, 0, 1, 0], [0, 0, 0, 1]],
           fitness_mapping = [[0, 1], [1, 0], [0, 1], [1, 0]]\<rparr> [1, 0, 1, 0] = Inr (4 :: real)"
    by (simp add: calculate_fitness_def decimal_at_def dependency_indicies_def
        rolled_dependency_indicies_def gather_def binary_to_decimal_def contribution_def
        getitem_def upt_conv_Cons)
  then show "case init gK rnd (Some 4) (Some 0) None (Some [[0, 1], [1, 0], [0, 1], [1, 0]]) of
      Inl e \<Rightarrow> False
    | Inr scenario \<Rightarrow>
        dependency_matrix scenario = identity 4 \<and>
        calculate_fitness scenario [1, 0, 1, 0] = Inr (4 :: real)"
    by (simp add: init_def built ident)
qed

theorem calculate_fitness_is_sum_witness:
  "valid_landscape
     \<lparr>N = 3, K = 1, dependency_matrix = [[1, 1, 0], [0, 1, 1], [1, 0, 1]],
      fitness_mapping = [[1, 2, 3, 4], [5, 6, 7, 8], [9, 10, 11, 12 :: real]]\<rparr> \<and>
   binary_solution
     \<lparr>N = 3, K = 1, dependency_matrix = [[1, 1, 0], [0, 1, 1], [1, 0, 1]],
      fitness_mapping = [[1, 2, 3, 4], [5, 6, 7, 8], [9, 10, 11, 12 :: real]]\<rparr> [1, 0, 1] \<and>
   calculate_fitness
     \<lparr>N = 3, K = 1, dependency_matrix = [[1, 1, 0], [0, 1, 1], [1, 0, 1]],
      fitness_mapping = [[1, 2, 3, 4], [5, 6, 7, 8], [9, 10, 11, 12 :: real]]\<rparr> [1, 0, 1]
   = Inr 21"
proof -
  let ?self = "\<lparr>N = 3, K = 1, dependency_matrix = [[1, 1, 0], [0, 1, 1], [1, 0, 1]],
      fitness_mapping = [[1, 2, 3, 4], [5, 6, 7, 8], [9, 10, 11, 12 :: real]]\<rparr>"
  have v: "valid_landscape ?self"
    by (simp add: valid_landscape_def check_dependency_matrix_def has_shape_def
        array_equal_def astype_bool_def trace_def sum_axis1_def upt_conv_Cons eval_nat_numeral)
  have b: "binary_solution ?self [1, 0, 1]"
    by (simp add: binary_solution_def)
  have "spec_fitness ?self [1, 0, 1] = 21"
    by (simp add: spec_fitness_def spec_d_def spec_rotated_indices_def spec_msb_first_def
        upt_conv_Cons)
  with calculate_fitness_is_sum [of ?self "[1, 0, 1]"] v b show ?thesis
    by simp
qed

subsection \<open>Determinism\<close>

lemma fitness_loop_cong:
  assumes "dependency_matrix a = dependency_matrix b" "fitness_mapping a = fitness_mapping b"
  shows "fitness_loop a solution idx fitness = fitness_loop b solution idx fitness"
proof (induction idx arbitrary: fitness)
  case Nil
  show ?case by simp
next
  case (Cons i rest)
  have d: "decimal_at a solution i = decimal_at b solution i"
    using assms by (simp add: decimal_at_def)
  have c: "contribution a i d = contribution b i d" for d
    using assms by (simp add: contribution_def)
  show ?case
    by (simp add: d c Cons.IH split: sum.splits)
qed

lemma calculate_fitness_cong:
  assumes "has_shape (dependency_matrix a) (N a, N a)"
    and "has_shape (dependency_matrix b) (N b, N b)"
    and "dependency_matrix a = dependency_matrix b"
    and "fitness_mapping a = fitness_mapping b"
  shows "calculate_fitness a solution = calculate_fitness b solution"
proof -
  have "N a = N b"
    using assms(1-3) by (simp add: has_shape_def)
  then show ?thesis
    using fitness_loop_cong [OF assms(3,4)] by (simp add: calculate_fitness_def)
qed

text \<open>No statement of the loop changes the world, and the loop computes what
  \<open>fitness_loop\<close> computes on the object of the world.\<close>

lemma calculate_fitness_steps_frame:
  "calculate_fitness_steps w solution idx fitness
   = (fitness_loop (obj w) solution idx fitness, w)"
  by (induction idx arbitrary: fitness) (simp_all split: sum.splits)

lemma calculate_fitness_call_frame:
  "calculate_fitness_call w solution = (calculate_fitness (obj w) solution, w)"
  by (simp add: calculate_fitness_call_def calculate_fitness_def calculate_fitness_steps_frame)

lemma generate_solutions_call_obj: "obj (snd (generate_solutions_call w num)) = obj w"
  by (simp add: generate_solutions_call_def split: sum.splits)

text \<open>
  \<^verbatim>\<open>generate_solutions\<close> is not deterministic in this sense: on the generator
  that draws 0, 1, 2, \<open>\<dots>\<close> two calls in a row with the same argument return
  different arrays.
\<close>

lemma generate_solutions_call_differs:
  "fst (generate_solutions_call
          \<lparr>obj = \<lparr>N = 3, K = 0, dependency_matrix = [[1, 0, 0], [0, 1, 0], [0, 0, 1]],
                  fitness_mapping = [[0, 1], [1, 0], [0, 1 :: real]]\<rparr>,
           generator = id\<rparr> (Some 1)) = Inr [[0, 1, 0]] \<and>
   fst (generate_solutions_call
          (snd (generate_solutions_call
                  \<lparr>obj = \<lparr>N = 3, K = 0, dependency_matrix = [[1, 0, 0], [0, 1, 0], [0, 0, 1]],
                          fitness_mapping = [[0, 1], [1, 0], [0, 1 :: real]]\<rparr>,
                   generator = id\<rparr> (Some 1))) (Some 1)) = Inr [[1, 0, 1]]"
  by (simp add: generate_solutions_call_def generate_solutions_def randint_def fill_def
      upt_conv_Cons)

text \<open>
  Claim C8. \<open>calculate_fitness\<close> is deterministic, with no randomness and no
  mutation of state on its path. A call leaves the world as it found it: no field
  of the object is assigned and nothing is drawn from the generator. Its result
  does not depend on the generator, nor on anything of the object but the
  dependency matrix and the fitness mapping: two worlds whose objects hold the
  same matrix (of the shape \<open>(N, N)\<close> of their own \<open>N\<close>) and the same mapping
  give the same solution the same result. So a second call returns the value of
  the first, also when \<^verbatim>\<open>generate_solutions\<close> has drawn from the generator in
  between. On a valid landscape and a solution of zeros and ones that value is
  the reference fitness \<open>spec_fitness\<close>.
\<close>

theorem calculate_fitness_deterministic:
  "snd (calculate_fitness_call w solution) = w \<and>
   (has_shape (dependency_matrix (obj w)) (N (obj w), N (obj w)) \<and>
    has_shape (dependency_matrix (obj w')) (N (obj w'), N (obj w')) \<and>
    dependency_matrix (obj w) = dependency_matrix (obj w') \<and>
    fitness_mapping (obj w) = fitness_mapping (obj w') \<longrightarrow>
      fst (calculate_fitness_call w solution) = fst (calculate_fitness_call w' solution)) \<and>
   fst (calculate_fitness_call (snd (calculate_fitness_call w solution)) solution)
     = fst (calculate_fitness_call w solution) \<and>
   fst (calculate_fitness_call (snd (generate_solutions_call w num)) solution)
     = fst (calculate_fitness_call w solution) \<and>
   (valid_landscape (obj w) \<and> binary_solution (obj w) solution \<longrightarrow>
      calculate_fitness_call w solution = (Inr (spec_fitness (obj w) solution), w))"
proof (intro conjI impI)
  show "snd (calculate_fitness_call w solution) = w"
    by (simp add: calculate_fitness_call_frame)
next
  assume "has_shape (dependency_matrix (obj w)) (N (obj w), N (obj w)) \<and>
    has_shape (dependency_matrix (obj w')) (N (obj w'), N (obj w')) \<and>
    dependency_matrix (obj w) = dependency_matrix (obj w') \<and>
    fitness_mapping (obj w) = fitness_mapping (obj w')"
  then have "calculate_fitness (obj w) solution = calculate_fitness (obj w') solution"
    by (elim conjE) (rule calculate_fitness_cong, assumption+)
  then show "fst (calculate_fitness_call w solution) = fst (calculate_fitness_call w' solution)"
    by (simp add: calculate_fitness_call_frame)
next
  show "fst (calculate_fitness_call (snd (calculate_fitness_call w solution)) solution)
     = fst (calculate_fitness_call w solution)"
    by (simp add: calculate_fitness_call_frame)
next
  show "fst (calculate_fitness_call (snd (generate_solutions_call w num)) solution)
     = fst (calculate_fitness_call w solution)"
    by (simp add: calculate_fitness_call_frame generate_solutions_call_obj)
next
  assume "valid_landscape (obj w) \<and> binary_solution (obj w) solution"
  then show "calculate_fitness_call w solution = (Inr (spec_fitness (obj w) solution), w)"
    by (simp add: calculate_fitness_call_frame calculate_fitness_spec)
qed

text \<open>
  On the valid landscape with \<open>N = 3\<close>, \<open>K = 1\<close> and the sequential matrix, the
  solution \<open>[1, 0, 1]\<close> has the fitness 21 (the entries 3, 6 and 12 of the
  mapping), the call leaves the world as it was, and the value is 21 again after
  \<^verbatim>\<open>generate_solutions(2)\<close> has drawn six values, and in a second world with
  another generator.
\<close>

theorem calculate_fitness_deterministic_witness:
  "valid_landscape
     \<lparr>N = 3, K = 1, dependency_matrix = [[1, 1, 0], [0, 1, 1], [1, 0, 1]],
      fitness_mapping = [[1, 2, 3, 4], [5, 6, 7, 8], [9, 10, 11, 12 :: real]]\<rparr> \<and>
   binary_solution
     \<lparr>N = 3, K = 1, dependency_matrix = [[1, 1, 0], [0, 1, 1], [1, 0, 1]],
      fitness_mapping = [[1, 2, 3, 4], [5, 6, 7, 8], [9, 10, 11, 12 :: real]]\<rparr> [1, 0, 1] \<and>
   calculate_fitness_call
     \<lparr>obj = \<lparr>N = 3, K = 1, dependency_matrix = [[1, 1, 0], [0, 1, 1], [1, 0, 1]],
             fitness_mapping = [[1, 2, 3, 4], [5, 6, 7, 8], [9, 10, 11, 12 :: real]]\<rparr>,
      generator = id\<rparr> [1, 0, 1]
   = (Inr 21,
      \<lparr>obj = \<lparr>N = 3, K = 1, dependency_matrix = [[1, 1, 0], [0, 1, 1], [1, 0, 1]],
              fitness_mapping = [[1, 2, 3, 4], [5, 6, 7, 8], [9, 10, 11, 12 :: real]]\<rparr>,
       generator = id\<rparr>) \<and>
   fst (calculate_fitness_call
          (snd (generate_solutions_call
                  \<lparr>obj = \<lparr>N = 3, K = 1, dependency_matrix = [[1, 1, 0], [0, 1, 1], [1, 0, 1]],
                          fitness_mapping = [[1, 2, 3, 4], [5, 6, 7, 8], [9, 10, 11, 12 :: real]]\<rparr>,
                   generator = id\<rparr> (Some 2))) [1, 0, 1]) = Inr 21 \<and>
   fst (calculate_fitness_call
          \<lparr>obj = \<lparr>N = 3, K = 1, dependency_matrix = [[1, 1, 0], [0, 1, 1], [1, 0, 1]],
                  fitness_mapping = [[1, 2, 3, 4], [5, 6, 7, 8], [9, 10, 11, 12 :: real]]\<rparr>,
           generator = Suc\<rparr> [1, 0, 1]) = Inr 21"
proof -
  let ?self = "\<lparr>N = 3, K = 1, dependency_matrix = [[1, 1, 0], [0, 1, 1], [1, 0, 1]],
      fitness_mapping = [[1, 2, 3, 4], [5, 6, 7, 8], [9, 10, 11, 12 :: real]]\<rparr>"
  let ?w = "\<lparr>obj = ?self, generator = id\<rparr>"
  let ?w' = "\<lparr>obj = ?self, generator = Suc\<rparr>"
  have v: "valid_landscape ?self"
    by (simp add: valid_landscape_def check_dependency_matrix_def has_shape_def
        array_equal_def astype_bool_def trace_def sum_axis1_def upt_conv_Cons eval_nat_numeral)
  have b: "binary_solution ?self [1, 0, 1]"
    by (simp add: binary_solution_def)
  have s: "spec_fitness ?self [1, 0, 1] = 21"
    by (simp add: spec_fitness_def spec_d_def spec_rotated_indices_def spec_msb_first_def
        upt_conv_Cons)
  have shape: "has_shape (dependency_matrix ?self) (N ?self, N ?self)"
    by (simp add: has_shape_def)
  note det = calculate_fitness_deterministic [of ?w "[1, 0, 1]" ?w' "Some 2"]
  from det v b s have first: "calculate_fitness_call ?w [1, 0, 1] = (Inr 21, ?w)"
    by simp
  from det first have
    "fst (calculate_fitness_call (snd (generate_solutions_call ?w (Some 2))) [1, 0, 1]) = Inr 21"
    by simp
  moreover from det first shape have "fst (calculate_fitness_call ?w' [1, 0, 1]) = Inr 21"
    by simp
  ultimately show ?thesis
    using v b first by simp
qed

end
